theory Spec2Isabelle
  imports Main "HOL-Library.Word" "HOL-Library.Sublist"
begin

section \<open>Python values, exceptions and the observable world\<close>

text \<open>
  The notebook handles JSON-like Python objects: the parsed body of an HTTP response,
  the dictionaries returned by the tool function and the argument mapping of a
  function-call request. A dictionary is an association list in insertion order; a
  float is carried as its IEEE-754 double bit pattern and never computed with.
\<close>

datatype pyval =
    PNone
  | PBool bool
  | PInt int
  | PFloat "64 word"
  | PStr string
  | PList "pyval list"
  | PDict "(string \<times> pyval) list"

text \<open>\<open>key in d\<close> for a payload: only a dictionary has keys.\<close>

fun has_key :: "string \<Rightarrow> pyval \<Rightarrow> bool" where
  "has_key k (PDict kvs) = (k \<in> set (map fst kvs))"
| "has_key k _ = False"

text \<open>
  Every exception the notebook can meet is an instance of a subclass of \<open>Exception\<close>;
  an exception value is its class and its \<open>str()\<close>. \<open>HTTPError\<close> is
  \<open>requests.exceptions.HTTPError\<close>; none of the other classes derives from it.
\<close>

datatype exn_class =
    HTTPError
  | ConnectionError
  | Timeout
  | JSONDecodeError
  | SecretNotFoundError
  | UnboundLocalError
  | IndexError
  | TypeError
  | AttributeError
  | OtherException

datatype exn = Exn (exn_class: exn_class) (message: string)

text \<open>
  What a run of a cell leaves behind for an observer: the lines printed, the URLs passed
  to \<open>requests.get\<close>, and the requests sent to \<open>client.models.generate_content\<close>
  (model identifier and contents), each in order.
\<close>

record world =
  stdout :: "string list"
  http_gets :: "string list"
  model_calls :: "(string \<times> string) list"

definition print :: "string \<Rightarrow> world \<Rightarrow> world" where
  "print s w = w\<lparr>stdout := stdout w @ [s]\<rparr>"

section \<open>The HTTP interface of the \<open>requests\<close> library\<close>

text \<open>
  A \<open>requests.Response\<close>, as far as the tool function looks at it: the status code,
  the reason phrase and final URL (both appear in the text of an \<open>HTTPError\<close>), and the
  outcome of \<open>response.json()\<close>: the parsed body, or the text of the decoding error
  it raises.
\<close>

record response =
  status_code :: int
  reason :: string
  url :: string
  json :: "string + pyval"

text \<open>Python's \<open>str\<close> of an integer, as the f-strings of \<open>raise_for_status\<close> use it.\<close>

fun str_nat :: "nat \<Rightarrow> string" where
  "str_nat n =
     (if n < 10 then [char_of (48 + n)]
      else str_nat (n div 10) @ [char_of (48 + n mod 10)])"

definition str_int :: "int \<Rightarrow> string" where
  "str_int i = (if i < 0 then CHR ''-'' # str_nat (nat (- i)) else str_nat (nat i))"

text \<open>
  \<open>Response.raise_for_status\<close> of the \<open>requests\<close> library: it builds a message for a
  status in 400..499 (client error) or 500..599 (server error) and raises \<open>HTTPError\<close>
  with it when the message is not empty; for any other status it returns \<open>None\<close>.
\<close>

definition http_error_msg :: "response \<Rightarrow> string" where
  "http_error_msg r =
     (if 400 \<le> status_code r \<and> status_code r < 500
      then str_int (status_code r) @ '' Client Error: '' @ reason r @ '' for url: '' @ url r
      else if 500 \<le> status_code r \<and> status_code r < 600
      then str_int (status_code r) @ '' Server Error: '' @ reason r @ '' for url: '' @ url r
      else [])"

definition raise_for_status :: "response \<Rightarrow> exn + unit" where
  "raise_for_status r =
     (if http_error_msg r \<noteq> [] then Inl (Exn HTTPError (http_error_msg r)) else Inr ())"

text \<open>
  The external HTTP resource is an oracle from the URL to what \<open>requests.get\<close> does
  with it: raise an exception or return a response. The call is recorded in the world.
\<close>

type_synonym http = "string \<Rightarrow> exn + response"

definition requests_get :: "http \<Rightarrow> string \<Rightarrow> world \<Rightarrow> (exn + response) \<times> world" where
  "requests_get http api_url w = (http api_url, w\<lparr>http_gets := http_gets w @ [api_url]\<rparr>)"

section \<open>The tool function \<open>get_github_user_info\<close>\<close>

text \<open>
  The body of the \<open>try\<close> block. Beside its outcome it gives the local variable
  \<open>response\<close>, which is bound only once \<open>requests.get\<close> has returned.
\<close>

definition try_block :: "http \<Rightarrow> string \<Rightarrow> world \<Rightarrow> (exn + pyval) \<times> response option \<times> world" where
  "try_block http api_url w =
     (case requests_get http api_url w of
        (Inl e, w') \<Rightarrow> (Inl e, None, w')
      | (Inr response, w') \<Rightarrow>
          (case raise_for_status response of
             Inl e \<Rightarrow> (Inl e, Some response, w')
           | Inr _ \<Rightarrow>
               (case json response of
                  Inl m \<Rightarrow> (Inl (Exn JSONDecodeError m), Some response, w')
                | Inr body \<Rightarrow> (Inr body, Some response, w'))))"

text \<open>Reading a local variable that has no value yet raises \<open>UnboundLocalError\<close>.\<close>

definition read_local :: "string \<Rightarrow> 'a option \<Rightarrow> exn + 'a" where
  "read_local var v =
     (case v of
        None \<Rightarrow> Inl (Exn UnboundLocalError
          (''cannot access local variable '' @ [CHR 0x27] @ var @ [CHR 0x27]
             @ '' where it is not associated with a value''))
      | Some x \<Rightarrow> Inr x)"

text \<open>
  The function prints its activation line, builds the URL by plain substitution of the
  username, runs the \<open>try\<close> block and turns an exception into a dictionary: the
  \<open>HTTPError\<close> handler comes first and reads \<open>response.status_code\<close> after printing,
  the \<open>Exception\<close> handler takes every other exception. An exception raised inside a
  handler leaves the function.
\<close>

definition get_github_user_info :: "http \<Rightarrow> string \<Rightarrow> world \<Rightarrow> (exn + pyval) \<times> world" where
  "get_github_user_info http username w =
     (let w1 = print (''--- TOOL ACTIVATED: Calling GitHub API for user: '' @ username @ '' ---'') w;
          api_url = ''https://api.github.com/users/'' @ username
      in case try_block http api_url w1 of
           (Inr body, _, w2) \<Rightarrow> (Inr body, w2)
         | (Inl e, response, w2) \<Rightarrow>
             if exn_class e = HTTPError
             then (let w3 = print (''--- GitHub API Error: '' @ message e @ '' ---'') w2
                   in case read_local ''response'' response of
                        Inl unbound \<Rightarrow> (Inl unbound, w3)
                      | Inr r \<Rightarrow>
                          (Inr (PDict [(''error'', PStr (''HTTP error occurred: '' @ message e)),
                                       (''status_code'', PInt (status_code r))]), w3))
             else (let w3 = print (''--- An unexpected error occurred: '' @ message e @ '' ---'') w2
                   in (Inr (PDict [(''error'', PStr (''An unexpected error occurred: '' @ message e))]),
                       w3)))"

section \<open>The credential cell\<close>

text \<open>
  \<open>userdata.get\<close> of Colab's secret store is an oracle from the secret's name to its
  value or to the exception the lookup raises. The name looked up is left open in the
  notebook (\<open><Name of your key>\<close>), so it is a parameter here. The cell gives the binding
  of \<open>api_key\<close> it leaves behind (\<open>None\<close> when the name stays undefined) and the
  world; it never raises, since both handlers only print.
\<close>

type_synonym userdata = "string \<Rightarrow> exn + string"

definition credential_cell :: "userdata \<Rightarrow> string \<Rightarrow> world \<Rightarrow> string option \<times> world" where
  \<open>credential_cell userdata_get key w =
     (case userdata_get key of
        Inr api_key \<Rightarrow> (Some api_key, w)
      | Inl e \<Rightarrow>
          if exn_class e = SecretNotFoundError
          then (None,
                print (''Please go to the "Key" icon on the left sidebar of Colab, add a new secret named GOOGLE_API_KEY, and paste your key in the value field.'' @ [CHR 0x0A])
                  (print ''ERROR: GOOGLE_API_KEY not found.'' w))
          else (None,
                print (''An error occurred during API configuration: '' @ message e @ [CHR 0x0A]) w))\<close>

section \<open>The model session and the dispatch cell\<close>

text \<open>
  The response of \<open>generate_content\<close> as the SDK types it: every level is optional, a
  part carries a function-call request, a text, or neither, and may be flagged as a
  thought of the model.
\<close>

record function_call =
  name :: string
  args :: "(string \<times> pyval) list"

record part =
  function_call :: "function_call option"
  part_text :: "string option"
  thought :: "bool option"

record content =
  parts :: "part list option"

record candidate =
  content :: "content option"

record generate_content_response =
  candidates :: "candidate list option"

text \<open>
  \<open>xs[0]\<close>: \<open>None\<close> is not subscriptable, an empty list has no index 0. Reading an
  attribute of \<open>None\<close> raises \<open>AttributeError\<close>.
\<close>

definition subscript0 :: "'a list option \<Rightarrow> exn + 'a" where
  \<open>subscript0 xs =
     (case xs of
        None \<Rightarrow> Inl (Exn TypeError (CHR 0x27 # ''NoneType' object is not subscriptable''))
      | Some [] \<Rightarrow> Inl (Exn IndexError ''list index out of range'')
      | Some (x # _) \<Rightarrow> Inr x)\<close>

definition getattr_parts :: "content option \<Rightarrow> exn + part list option" where
  \<open>getattr_parts c =
     (case c of
        None \<Rightarrow> Inl (Exn AttributeError (CHR 0x27 # ''NoneType' object has no attribute 'parts'' @ [CHR 0x27]))
      | Some ct \<Rightarrow> Inr (parts ct))\<close>

text \<open>The expression \<open>response.candidates[0].content.parts[0]\<close>.\<close>

definition first_part :: "generate_content_response \<Rightarrow> exn + part" where
  "first_part response =
     (case subscript0 (candidates response) of
        Inl e \<Rightarrow> Inl e
      | Inr c \<Rightarrow>
          (case getattr_parts (content c) of
             Inl e \<Rightarrow> Inl e
           | Inr ps \<Rightarrow> subscript0 ps))"

text \<open>
  The SDK's accessor \<open>response.text\<close>: \<open>None\<close> when the first candidate has no parts,
  otherwise the concatenation of the texts of its parts, skipping every part whose
  \<open>thought\<close> flag is \<open>True\<close>, or \<open>None\<close> when no part contributes a text.
  \<open>print\<close> shows \<open>None\<close> as the word \<open>None\<close>.
\<close>

definition answer_text :: "part \<Rightarrow> string option" where
  "answer_text p = (if thought p = Some True then None else part_text p)"

definition text_of_parts :: "part list \<Rightarrow> string option" where
  "text_of_parts ps =
     (if \<exists>p \<in> set ps. answer_text p \<noteq> None
      then Some (concat (map (\<lambda>p. case answer_text p of None \<Rightarrow> [] | Some t \<Rightarrow> t) ps))
      else None)"

definition response_text :: "generate_content_response \<Rightarrow> string option" where
  "response_text response =
     (case candidates response of
        None \<Rightarrow> None
      | Some [] \<Rightarrow> None
      | Some (c # _) \<Rightarrow>
          (case content c of
             None \<Rightarrow> None
           | Some ct \<Rightarrow>
               (case parts ct of
                  None \<Rightarrow> None
                | Some ps \<Rightarrow> text_of_parts ps)))"

definition str_optional :: "string option \<Rightarrow> string" where
  "str_optional t = (case t of None \<Rightarrow> ''None'' | Some s \<Rightarrow> s)"

text \<open>Every function-call request a response contains, over all candidates and parts.\<close>

definition parts_of_candidate :: "candidate \<Rightarrow> part list" where
  "parts_of_candidate c =
     (case content c of
        None \<Rightarrow> []
      | Some ct \<Rightarrow> (case parts ct of None \<Rightarrow> [] | Some ps \<Rightarrow> ps))"

definition function_call_requests :: "generate_content_response \<Rightarrow> function_call list" where
  "function_call_requests response =
     (case candidates response of
        None \<Rightarrow> []
      | Some cs \<Rightarrow>
          concat (map (\<lambda>p. case function_call p of None \<Rightarrow> [] | Some fc \<Rightarrow> [fc])
                      (concat (map parts_of_candidate cs))))"

text \<open>
  The cell that reads the username builds the prompt; the next cell sends it to the
  model, an oracle from model identifier and contents to the response. The call is
  recorded in the world. (The \<open>config\<close> argument is built from placeholders in the
  notebook and is left out.)
\<close>

definition user_prompt :: "string \<Rightarrow> string" where
  "user_prompt github_username =
     ''Please provide a summary of the GitHub user '' @ github_username
       @ ''. Tell me their display name, their bio, how many public repos they have, and how many followers they have.''"

type_synonym llm = "string \<Rightarrow> string \<Rightarrow> generate_content_response"

definition generate_content ::
    "llm \<Rightarrow> string \<Rightarrow> string \<Rightarrow> world \<Rightarrow> generate_content_response \<times> world" where
  "generate_content llm model contents w =
     (llm model contents, w\<lparr>model_calls := model_calls w @ [(model, contents)]\<rparr>)"

text \<open>
  The dispatch cell. A \<open>FunctionCall\<close> object is truthy, \<open>None\<close> is not. In the
  function-call branch the cell prints the requested name and the argument mapping; the
  two steps after that are comments in the notebook, not code. Otherwise it prints a notice
  and \<open>response.text\<close>. Python's \<open>str\<close> of the argument dictionary is a parameter.
\<close>

definition dispatch_cell ::
    "((string \<times> pyval) list \<Rightarrow> string) \<Rightarrow> generate_content_response \<Rightarrow> world
       \<Rightarrow> (exn + unit) \<times> world" where
  "dispatch_cell str_args response w =
     (case first_part response of
        Inl e \<Rightarrow> (Inl e, w)
      | Inr p \<Rightarrow>
          (case function_call p of
             Some fc \<Rightarrow>
               (Inr (),
                print (''Arguments: '' @ str_args (args fc))
                  (print (''Function to call: '' @ name fc) w))
           | None \<Rightarrow>
               (Inr (),
                print (str_optional (response_text response))
                  (print ''No function call found in the response.'' w))))"

text \<open>The last three code cells in order: prompt, model call, dispatch.\<close>

definition agent_cells ::
    "llm \<Rightarrow> ((string \<times> pyval) list \<Rightarrow> string) \<Rightarrow> string \<Rightarrow> world \<Rightarrow> (exn + unit) \<times> world" where
  "agent_cells llm str_args github_username w =
     (case generate_content llm ''gemini-2.5-flash'' (user_prompt github_username) w of
        (response, w1) \<Rightarrow> dispatch_cell str_args response w1)"

section \<open>Observations on outcomes\<close>

text \<open>
  A key of the dictionary a call returned (an exception has no payload), and the class
  of the exception an outcome carries.
\<close>

definition payload_has_key :: "string \<Rightarrow> exn + pyval \<Rightarrow> bool" where
  "payload_has_key k res = (case res of Inl e \<Rightarrow> False | Inr payload \<Rightarrow> has_key k payload)"

definition raises_class :: "exn_class \<Rightarrow> exn + 'a \<Rightarrow> bool" where
  "raises_class c res = (case res of Inl e \<Rightarrow> exn_class e = c | Inr x \<Rightarrow> False)"

section \<open>Concrete worlds, responses and oracles\<close>

text \<open>The inputs at which the properties below are evaluated.\<close>

definition fresh_world :: world where
  "fresh_world = \<lparr>stdout = [], http_gets = [], model_calls = []\<rparr>"

definition not_found_response :: response where
  "not_found_response =
     \<lparr>status_code = 404, reason = ''Not Found'',
      url = ''https://api.github.com/users/no-such-user-0000'',
      json = Inr (PDict [(''message'', PStr ''Not Found''), (''status'', PStr ''404'')])\<rparr>"

definition http_not_found :: http where
  "http_not_found api_url = Inr not_found_response"

definition not_modified_response :: response where
  "not_modified_response =
     \<lparr>status_code = 304, reason = ''Not Modified'',
      url = ''https://api.github.com/users/google'',
      json = Inl ''Expecting value: line 1 column 1 (char 0)''\<rparr>"

definition http_not_modified :: http where
  "http_not_modified api_url = Inr not_modified_response"

definition garbled_ok_response :: response where
  "garbled_ok_response =
     \<lparr>status_code = 200, reason = ''OK'',
      url = ''https://api.github.com/users/google'',
      json = Inl ''Expecting value: line 1 column 1 (char 0)''\<rparr>"

definition http_garbled_ok :: http where
  "http_garbled_ok api_url = Inr garbled_ok_response"

definition error_body_response :: response where
  "error_body_response =
     \<lparr>status_code = 200, reason = ''OK'',
      url = ''https://api.github.com/users/google'',
      json = Inr (PDict [(''error'', PStr ''try again later'')])\<rparr>"

definition http_error_body :: http where
  "http_error_body api_url = Inr error_body_response"

definition google_response :: response where
  "google_response =
     \<lparr>status_code = 200, reason = ''OK'',
      url = ''https://api.github.com/users/google'',
      json = Inr (PDict [(''login'', PStr ''google''), (''name'', PStr ''Google''),
                         (''bio'', PStr ''Google loves open source''),
                         (''public_repos'', PInt 2800), (''followers'', PInt 60000)])\<rparr>"

definition http_google :: http where
  "http_google api_url = Inr google_response"

definition http_unreachable :: http where
  "http_unreachable api_url = Inl (Exn ConnectionError ''Connection refused'')"

definition http_raising_http_error :: http where
  "http_raising_http_error api_url = Inl (Exn HTTPError ''raised before any response'')"

definition userdata_empty :: userdata where
  "userdata_empty key = Inl (Exn SecretNotFoundError (''Secret '' @ key @ '' does not exist.''))"

text \<open>
  Python's \<open>str\<close> of the argument dictionary \<open>{'username': 'google'}\<close>, the only one
  the requests below carry.
\<close>

definition str_args_google :: "(string \<times> pyval) list \<Rightarrow> string" where
  \<open>str_args_google a = ''{'username': 'google'}''\<close>

definition tool_request_response :: generate_content_response where
  "tool_request_response =
     \<lparr>candidates = Some [\<lparr>content = Some \<lparr>parts = Some
        [\<lparr>function_call = Some \<lparr>name = ''get_github_user_info'',
                                  args = [(''username'', PStr ''google'')]\<rparr>,
          part_text = None, thought = None\<rparr>]\<rparr>\<rparr>]\<rparr>"

definition llm_tool_request :: llm where
  "llm_tool_request model contents = tool_request_response"

definition unknown_tool_response :: generate_content_response where
  "unknown_tool_response =
     \<lparr>candidates = Some [\<lparr>content = Some \<lparr>parts = Some
        [\<lparr>function_call = Some \<lparr>name = ''delete_repository'',
                                  args = [(''username'', PStr ''google'')]\<rparr>,
          part_text = None, thought = None\<rparr>]\<rparr>\<rparr>]\<rparr>"

definition text_response :: generate_content_response where
  "text_response =
     \<lparr>candidates = Some [\<lparr>content = Some \<lparr>parts = Some
        [\<lparr>function_call = None,
          part_text = Some ''I cannot look that up.'', thought = None\<rparr>]\<rparr>\<rparr>]\<rparr>"

definition blocked_response :: generate_content_response where
  "blocked_response = \<lparr>candidates = None\<rparr>"

definition empty_part_response :: generate_content_response where
  "empty_part_response =
     \<lparr>candidates = Some [\<lparr>content = Some \<lparr>parts = Some
        [\<lparr>function_call = None, part_text = None, thought = None\<rparr>]\<rparr>\<rparr>]\<rparr>"

definition thinking_response :: generate_content_response where
  "thinking_response =
     \<lparr>candidates = Some [\<lparr>content = Some \<lparr>parts = Some
        [\<lparr>function_call = None, part_text = Some ''thinking...'', thought = Some True\<rparr>,
         \<lparr>function_call = None, part_text = Some ''answer'', thought = None\<rparr>]\<rparr>\<rparr>]\<rparr>"

section \<open>Properties of the tool function\<close>

lemma http_error_msg_error:
  "400 \<le> status_code r \<Longrightarrow> status_code r < 600 \<Longrightarrow> http_error_msg r \<noteq> []"
  by (simp add: http_error_msg_def)

lemma http_error_msg_no_error:
  "\<not> (400 \<le> status_code r \<and> status_code r < 600) \<Longrightarrow> http_error_msg r = []"
  by (auto simp add: http_error_msg_def)

lemma raise_for_status_error:
  "400 \<le> status_code r \<Longrightarrow> status_code r < 600
     \<Longrightarrow> raise_for_status r = Inl (Exn HTTPError (http_error_msg r))"
  by (simp add: raise_for_status_def http_error_msg_error)

lemma raise_for_status_no_error:
  "\<not> (400 \<le> status_code r \<and> status_code r < 600) \<Longrightarrow> raise_for_status r = Inr ()"
  by (simp add: raise_for_status_def http_error_msg_no_error)

text \<open>The five ways through the function, by what the oracle answers at the URL.\<close>

lemma get_github_user_info_raises:
  assumes "http (''https://api.github.com/users/'' @ username) = Inl e"
    and "exn_class e \<noteq> HTTPError"
  shows "fst (get_github_user_info http username w)
     = Inr (PDict [(''error'', PStr (''An unexpected error occurred: '' @ message e))])"
  using assms
  by (simp add: get_github_user_info_def try_block_def requests_get_def Let_def)

lemma get_github_user_info_unbound:
  assumes "http (''https://api.github.com/users/'' @ username) = Inl e"
    and "exn_class e = HTTPError"
  shows "fst (get_github_user_info http username w) = Inl (Exn UnboundLocalError
     (''cannot access local variable 'response' where it is not associated with a value''))"
  using assms
  by (simp add: get_github_user_info_def try_block_def requests_get_def Let_def read_local_def)

lemma get_github_user_info_http_error:
  assumes "http (''https://api.github.com/users/'' @ username) = Inr r"
    and "400 \<le> status_code r" and "status_code r < 600"
  shows "fst (get_github_user_info http username w)
     = Inr (PDict [(''error'', PStr (''HTTP error occurred: '' @ http_error_msg r)),
                   (''status_code'', PInt (status_code r))])"
  using assms
  by (simp add: get_github_user_info_def try_block_def requests_get_def Let_def read_local_def
      raise_for_status_error)

lemma get_github_user_info_undecodable:
  assumes "http (''https://api.github.com/users/'' @ username) = Inr r"
    and "\<not> (400 \<le> status_code r \<and> status_code r < 600)"
    and "json r = Inl m"
  shows "fst (get_github_user_info http username w)
     = Inr (PDict [(''error'', PStr (''An unexpected error occurred: '' @ m))])"
  using assms
  by (simp add: get_github_user_info_def try_block_def requests_get_def Let_def
      raise_for_status_no_error)

lemma get_github_user_info_body:
  assumes "http (''https://api.github.com/users/'' @ username) = Inr r"
    and "\<not> (400 \<le> status_code r \<and> status_code r < 600)"
    and "json r = Inr body"
  shows "get_github_user_info http username w
     = (Inr body,
        w\<lparr>stdout := stdout w
              @ [''--- TOOL ACTIVATED: Calling GitHub API for user: '' @ username @ '' ---''],
          http_gets := http_gets w @ [''https://api.github.com/users/'' @ username]\<rparr>)"
  using assms
  by (simp add: get_github_user_info_def try_block_def requests_get_def Let_def print_def
      raise_for_status_no_error)

lemma get_github_user_info_world_irrelevant:
  "fst (get_github_user_info http username w) = fst (get_github_user_info http username w')"
proof (cases "http (''https://api.github.com/users/'' @ username)")
  case (Inl e)
  then show ?thesis
    by (cases "exn_class e = HTTPError")
      (simp_all add: get_github_user_info_raises get_github_user_info_unbound)
next
  case (Inr r)
  show ?thesis
  proof (cases "400 \<le> status_code r \<and> status_code r < 600")
    case True
    with Inr show ?thesis by (simp add: get_github_user_info_http_error)
  next
    case False
    with Inr show ?thesis
      by (cases "json r")
        (simp_all add: get_github_user_info_undecodable get_github_user_info_body)
  qed
qed

lemma try_block_world:
  "snd (snd (try_block http api_url w)) = w\<lparr>http_gets := http_gets w @ [api_url]\<rparr>"
  by (simp add: try_block_def requests_get_def split: sum.splits)

lemma get_github_user_info_http_gets:
  "http_gets (snd (get_github_user_info http username w))
     = http_gets w @ [''https://api.github.com/users/'' @ username]"
proof -
  obtain res loc w2 where t: "try_block http (''https://api.github.com/users/'' @ username)
      (print (''--- TOOL ACTIVATED: Calling GitHub API for user: '' @ username @ '' ---'') w)
      = (res, loc, w2)"
    by (cases "try_block http (''https://api.github.com/users/'' @ username)
      (print (''--- TOOL ACTIVATED: Calling GitHub API for user: '' @ username @ '' ---'') w)") auto
  from try_block_world [of http "''https://api.github.com/users/'' @ username"
      "print (''--- TOOL ACTIVATED: Calling GitHub API for user: '' @ username @ '' ---'') w"] t
  have "http_gets w2 = http_gets w @ [''https://api.github.com/users/'' @ username]"
    by (simp add: print_def)
  with t show ?thesis
    by (simp add: get_github_user_info_def Let_def print_def split: sum.splits)
qed

lemma str_int_404: "str_int 404 = ''404''"
  by code_simp

text \<open>
  Claim C1, as stated for every non-2xx status, fails at status 304: \<open>raise_for_status\<close>
  raises nothing there, the empty body does not decode, and the dictionary returned has
  the key \<open>error\<close> only, without \<open>status_code\<close>.
\<close>

theorem C1_counterexample_not_modified:
  "http_not_modified ''https://api.github.com/users/google'' = Inr not_modified_response
   \<and> status_code not_modified_response = 304
   \<and> fst (get_github_user_info http_not_modified ''google'' fresh_world)
       = Inr (PDict [(''error'',
            PStr ''An unexpected error occurred: Expecting value: line 1 column 1 (char 0)'')])
   \<and> \<not> payload_has_key ''status_code''
         (fst (get_github_user_info http_not_modified ''google'' fresh_world))"
proof -
  have "fst (get_github_user_info http_not_modified ''google'' fresh_world)
       = Inr (PDict [(''error'',
            PStr ''An unexpected error occurred: Expecting value: line 1 column 1 (char 0)'')])"
    using get_github_user_info_undecodable [of http_not_modified "''google''"
        not_modified_response "''Expecting value: line 1 column 1 (char 0)''" fresh_world]
    by (simp add: http_not_modified_def not_modified_response_def)
  then show ?thesis
    by (simp add: http_not_modified_def not_modified_response_def payload_has_key_def)
qed

text \<open>
  Claim C1, amended. When the HTTP GET completes with a status in 400..599, the
  statuses for which \<open>raise_for_status\<close> raises \<open>HTTPError\<close>, the function returns a
  dictionary with the error message under \<open>error\<close> and the response's status under
  \<open>status_code\<close>, and no exception leaves the function.
\<close>

theorem C1_http_error_status_payload:
  assumes "http (''https://api.github.com/users/'' @ username) = Inr r"
    and "400 \<le> status_code r" and "status_code r < 600"
  shows "fst (get_github_user_info http username w)
       = Inr (PDict [(''error'', PStr (''HTTP error occurred: '' @ http_error_msg r)),
                     (''status_code'', PInt (status_code r))])
     \<and> payload_has_key ''error'' (fst (get_github_user_info http username w))
     \<and> payload_has_key ''status_code'' (fst (get_github_user_info http username w))"
  using assms get_github_user_info_http_error [of http username r w]
  by (simp add: payload_has_key_def)

text \<open>
  Witness for claim C1: a user that does not exist, status 404.
\<close>

theorem C1_http_error_status_payload_witness:
  "fst (get_github_user_info http_not_found ''no-such-user-0000'' fresh_world)
     = Inr (PDict [(''error'', PStr ''HTTP error occurred: 404 Client Error: Not Found for url: https://api.github.com/users/no-such-user-0000''),
                   (''status_code'', PInt 404)])"
  using C1_http_error_status_payload [of http_not_found "''no-such-user-0000''"
      not_found_response fresh_world]
  by (simp add: http_not_found_def not_found_response_def http_error_msg_def str_int_404)

text \<open>
  Claim C2, as stated for every 2xx response, fails at status 200 with a body that is
  not JSON: the function returns its own error dictionary, not the body. And a JSON body
  that has an \<open>error\<close> key of its own is returned with it.
\<close>

theorem C2_counterexample_ok_status_error_key:
  "status_code garbled_ok_response = 200
   \<and> fst (get_github_user_info http_garbled_ok ''google'' fresh_world)
       = Inr (PDict [(''error'',
            PStr ''An unexpected error occurred: Expecting value: line 1 column 1 (char 0)'')])
   \<and> payload_has_key ''error'' (fst (get_github_user_info http_garbled_ok ''google'' fresh_world))
   \<and> status_code error_body_response = 200
   \<and> payload_has_key ''error'' (fst (get_github_user_info http_error_body ''google'' fresh_world))"
proof -
  have a: "fst (get_github_user_info http_garbled_ok ''google'' fresh_world)
       = Inr (PDict [(''error'',
            PStr ''An unexpected error occurred: Expecting value: line 1 column 1 (char 0)'')])"
    using get_github_user_info_undecodable [of http_garbled_ok "''google''"
        garbled_ok_response "''Expecting value: line 1 column 1 (char 0)''" fresh_world]
    by (simp add: http_garbled_ok_def garbled_ok_response_def)
  have b: "fst (get_github_user_info http_error_body ''google'' fresh_world)
       = Inr (PDict [(''error'', PStr ''try again later'')])"
    using get_github_user_info_body [of http_error_body "''google''"
        error_body_response "PDict [(''error'', PStr ''try again later'')]" fresh_world]
    by (simp add: http_error_body_def error_body_response_def)
  show ?thesis
    by (simp add: a b payload_has_key_def garbled_ok_response_def error_body_response_def)
qed

text \<open>
  Claim C2, amended. The function issues exactly one HTTP GET, to
  \<open>https://api.github.com/users/{username}\<close>; when the status is 2xx and the body
  decodes as JSON, it returns the parsed body as it is, printing only its activation
  line, so the payload has an \<open>error\<close> key exactly when the body itself has one.
\<close>

theorem C2_success_returns_parsed_body:
  "http_gets (snd (get_github_user_info http username w))
     = http_gets w @ [''https://api.github.com/users/'' @ username]
   \<and> (http (''https://api.github.com/users/'' @ username) = Inr r
        \<and> 200 \<le> status_code r \<and> status_code r < 300 \<and> json r = Inr body
      \<longrightarrow> get_github_user_info http username w
            = (Inr body,
               w\<lparr>stdout := stdout w
                     @ [''--- TOOL ACTIVATED: Calling GitHub API for user: '' @ username @ '' ---''],
                 http_gets := http_gets w @ [''https://api.github.com/users/'' @ username]\<rparr>)
          \<and> payload_has_key ''error'' (fst (get_github_user_info http username w))
              = has_key ''error'' body)"
proof -
  have "get_github_user_info http username w
            = (Inr body,
               w\<lparr>stdout := stdout w
                     @ [''--- TOOL ACTIVATED: Calling GitHub API for user: '' @ username @ '' ---''],
                 http_gets := http_gets w @ [''https://api.github.com/users/'' @ username]\<rparr>)
          \<and> payload_has_key ''error'' (fst (get_github_user_info http username w))
              = has_key ''error'' body"
    if a: "http (''https://api.github.com/users/'' @ username) = Inr r"
      and b: "200 \<le> status_code r" "status_code r < 300" and c: "json r = Inr body"
  proof -
    from b have "\<not> (400 \<le> status_code r \<and> status_code r < 600)" by simp
    with a c get_github_user_info_body [of http username r body w]
    show ?thesis by (simp add: payload_has_key_def)
  qed
  with get_github_user_info_http_gets [of http username w] show ?thesis by blast
qed

text \<open>
  Witness for claim C2: the user \<open>google\<close>, status 200.
\<close>

theorem C2_success_returns_parsed_body_witness:
  "get_github_user_info http_google ''google'' fresh_world
     = (Inr (PDict [(''login'', PStr ''google''), (''name'', PStr ''Google''),
                    (''bio'', PStr ''Google loves open source''),
                    (''public_repos'', PInt 2800), (''followers'', PInt 60000)]),
        \<lparr>stdout = [''--- TOOL ACTIVATED: Calling GitHub API for user: google ---''],
         http_gets = [''https://api.github.com/users/google''],
         model_calls = []\<rparr>)
   \<and> \<not> payload_has_key ''error'' (fst (get_github_user_info http_google ''google'' fresh_world))"
  using C2_success_returns_parsed_body [where http = http_google and username = "''google''"
      and w = fresh_world and r = google_response
      and body = "PDict [(''login'', PStr ''google''), (''name'', PStr ''Google''),
                    (''bio'', PStr ''Google loves open source''),
                    (''public_repos'', PInt 2800), (''followers'', PInt 60000)]"]
  by (simp add: http_google_def google_response_def fresh_world_def payload_has_key_def)

text \<open>
  Claim C6. When the call fails other than by an HTTP error status, because
  \<open>requests.get\<close> raises an exception that is not an \<open>HTTPError\<close> (a network error) or
  because the body of a response that \<open>raise_for_status\<close> lets through does not decode as
  JSON, the function returns a dictionary whose only key is \<open>error\<close>, holding the message,
  and no exception leaves the function.
\<close>

theorem C6_other_failure_message_only:
  "(http (''https://api.github.com/users/'' @ username) = Inl e \<and> exn_class e \<noteq> HTTPError
      \<longrightarrow> fst (get_github_user_info http username w)
            = Inr (PDict [(''error'', PStr (''An unexpected error occurred: '' @ message e))]))
   \<and> (http (''https://api.github.com/users/'' @ username) = Inr r
        \<and> \<not> (400 \<le> status_code r \<and> status_code r < 600) \<and> json r = Inl m
      \<longrightarrow> fst (get_github_user_info http username w)
            = Inr (PDict [(''error'', PStr (''An unexpected error occurred: '' @ m))]))"
  using get_github_user_info_raises [of http username e w]
    get_github_user_info_undecodable [of http username r m w]
  by blast

text \<open>
  Witness for claim C6: a refused connection, and a 200 response whose body is not JSON.
\<close>

theorem C6_other_failure_message_only_witness:
  "fst (get_github_user_info http_unreachable ''google'' fresh_world)
     = Inr (PDict [(''error'', PStr ''An unexpected error occurred: Connection refused'')])
   \<and> fst (get_github_user_info http_garbled_ok ''google'' fresh_world)
     = Inr (PDict [(''error'',
          PStr ''An unexpected error occurred: Expecting value: line 1 column 1 (char 0)'')])"
  using C6_other_failure_message_only [of http_unreachable "''google''"
        "Exn ConnectionError ''Connection refused''" fresh_world garbled_ok_response
        "''Expecting value: line 1 column 1 (char 0)''"]
    C6_other_failure_message_only [of http_garbled_ok "''google''"
        "Exn ConnectionError ''Connection refused''" fresh_world garbled_ok_response
        "''Expecting value: line 1 column 1 (char 0)''"]
  by (simp add: http_unreachable_def http_garbled_ok_def garbled_ok_response_def)

text \<open>
  Claim C8. Against a fixed HTTP oracle the payload returned for a username does not
  depend on the world the call starts in, so a second call made after the first one
  returns the same payload. Nothing is cached: the second call is a round trip of its
  own, and after the two calls the same URL has been requested twice.
\<close>

theorem C8_same_username_same_payload:
  "fst (get_github_user_info http username w) = fst (get_github_user_info http username w')
   \<and> fst (get_github_user_info http username (snd (get_github_user_info http username w)))
     = fst (get_github_user_info http username w)
   \<and> http_gets (snd (get_github_user_info http username
                        (snd (get_github_user_info http username w))))
     = http_gets w @ [''https://api.github.com/users/'' @ username,
                      ''https://api.github.com/users/'' @ username]"
  using get_github_user_info_world_irrelevant [of http username w w']
    get_github_user_info_world_irrelevant
      [of http username "snd (get_github_user_info http username w)" w]
    get_github_user_info_http_gets [of http username w]
    get_github_user_info_http_gets [of http username "snd (get_github_user_info http username w)"]
  by simp

text \<open>
  Witness for claim C8: two calls in a row for \<open>google\<close>.
\<close>

theorem C8_same_username_same_payload_witness:
  "fst (get_github_user_info http_google ''google''
          (snd (get_github_user_info http_google ''google'' fresh_world)))
     = fst (get_github_user_info http_google ''google'' fresh_world)
   \<and> http_gets (snd (get_github_user_info http_google ''google''
                        (snd (get_github_user_info http_google ''google'' fresh_world))))
     = [''https://api.github.com/users/google'', ''https://api.github.com/users/google'']"
  using C8_same_username_same_payload [of http_google "''google''" fresh_world fresh_world]
  by (simp add: fresh_world_def)

text \<open>
  Claim C9. If \<open>requests.get\<close> itself never raises \<open>HTTPError\<close>, so that only
  \<open>raise_for_status\<close> does, then whenever the \<open>HTTPError\<close> handler runs the local variable
  \<open>response\<close> is bound when \<open>response.status_code\<close> is read, and the function never
  fails with \<open>UnboundLocalError\<close>.
\<close>

theorem C9_response_bound_when_read:
  assumes "\<not> raises_class HTTPError (http (''https://api.github.com/users/'' @ username))"
  shows "(try_block http (''https://api.github.com/users/'' @ username) w1 = (Inl e, loc, w2)
           \<and> exn_class e = HTTPError \<longrightarrow> read_local ''response'' loc \<noteq> Inl unbound)
     \<and> \<not> raises_class UnboundLocalError (fst (get_github_user_info http username w))"
proof (cases "http (''https://api.github.com/users/'' @ username)")
  case (Inl x)
  with assms have c: "exn_class x \<noteq> HTTPError" by (simp add: raises_class_def)
  from Inl c have "try_block http (''https://api.github.com/users/'' @ username) w1 = (Inl e, loc, w2)
           \<and> exn_class e = HTTPError \<longrightarrow> read_local ''response'' loc \<noteq> Inl unbound"
    by (auto simp add: try_block_def requests_get_def)
  with Inl c get_github_user_info_raises [of http username x w] show ?thesis
    by (simp add: raises_class_def)
next
  case (Inr r)
  then have t: "try_block http (''https://api.github.com/users/'' @ username) w1 = (Inl e, loc, w2)
           \<and> exn_class e = HTTPError \<longrightarrow> read_local ''response'' loc \<noteq> Inl unbound"
    by (auto simp add: try_block_def requests_get_def read_local_def split: sum.splits)
  show ?thesis
  proof (cases "400 \<le> status_code r \<and> status_code r < 600")
    case True
    with t Inr get_github_user_info_http_error [of http username r w] show ?thesis
      by (simp add: raises_class_def)
  next
    case False
    with t Inr show ?thesis
      by (cases "json r")
        (simp_all add: get_github_user_info_undecodable get_github_user_info_body raises_class_def)
  qed
qed

text \<open>
  Witness for claim C9: the 404 response, where the handler runs and reads the status.
\<close>

theorem C9_response_bound_when_read_witness:
  "\<not> raises_class HTTPError (http_not_found ''https://api.github.com/users/no-such-user-0000'')
   \<and> raises_class HTTPError
         (fst (try_block http_not_found ''https://api.github.com/users/no-such-user-0000''
                 fresh_world))
   \<and> fst (snd (try_block http_not_found ''https://api.github.com/users/no-such-user-0000''
                 fresh_world)) = Some not_found_response
   \<and> \<not> raises_class UnboundLocalError
         (fst (get_github_user_info http_not_found ''no-such-user-0000'' fresh_world))"
proof -
  have h: "\<not> raises_class HTTPError
      (http_not_found (''https://api.github.com/users/'' @ ''no-such-user-0000''))"
    by (simp add: raises_class_def http_not_found_def)
  have "400 \<le> status_code not_found_response" "status_code not_found_response < 600"
    by (simp_all add: not_found_response_def)
  then have t: "try_block http_not_found ''https://api.github.com/users/no-such-user-0000''
      fresh_world
    = (Inl (Exn HTTPError (http_error_msg not_found_response)), Some not_found_response,
       fresh_world\<lparr>http_gets := http_gets fresh_world
          @ [''https://api.github.com/users/no-such-user-0000'']\<rparr>)"
    by (simp add: try_block_def requests_get_def http_not_found_def raise_for_status_error)
  from h C9_response_bound_when_read [of http_not_found "''no-such-user-0000''" _ _ _ _ _ fresh_world]
  have "\<not> raises_class UnboundLocalError
         (fst (get_github_user_info http_not_found ''no-such-user-0000'' fresh_world))"
    by simp
  with h t show ?thesis by (simp add: raises_class_def)
qed

text \<open>
  The premise is needed: were \<open>requests.get\<close> to raise \<open>HTTPError\<close>, the handler would
  read an unbound \<open>response\<close> and the error would leave the function.
\<close>

lemma get_raising_http_error_escapes:
  "raises_class UnboundLocalError
     (fst (get_github_user_info http_raising_http_error ''google'' fresh_world))"
  using get_github_user_info_unbound [of http_raising_http_error "''google''"
      "Exn HTTPError ''raised before any response''" fresh_world]
  by (simp add: http_raising_http_error_def raises_class_def)


text \<open>
  Claim C10. The function performs the HTTP GET for every input string: the username is
  never validated, and for the empty username the request goes to
  \<open>https://api.github.com/users/\<close>.
\<close>

theorem C10_get_issued_for_every_username:
  "http_gets (snd (get_github_user_info http username w))
     = http_gets w @ [''https://api.github.com/users/'' @ username]
   \<and> http_gets (snd (get_github_user_info http [] w))
     = http_gets w @ [''https://api.github.com/users/'']"
  using get_github_user_info_http_gets [of http username w]
    get_github_user_info_http_gets [of http "[]" w]
  by simp


text \<open>
  Witness for claim C10: the empty username.
\<close>

theorem C10_get_issued_for_every_username_witness:
  "http_gets (snd (get_github_user_info http_not_found [] fresh_world))
     = [''https://api.github.com/users/'']"
  using C10_get_issued_for_every_username [of http_not_found "[]" fresh_world]
  by (simp add: fresh_world_def)

section \<open>Properties of the credential cell\<close>

text \<open>Whatever name is looked up, a missing secret gives the same two lines.\<close>

lemma credential_cell_missing:
  assumes "userdata_get key = Inl e" and "exn_class e = SecretNotFoundError"
  shows \<open>credential_cell userdata_get key w
     = (None,
        w\<lparr>stdout := stdout w @
           [''ERROR: GOOGLE_API_KEY not found.'',
            ''Please go to the "Key" icon on the left sidebar of Colab, add a new secret named GOOGLE_API_KEY, and paste your key in the value field.'' @ [CHR 0x0A]]\<rparr>)\<close>
  using assms by (simp add: credential_cell_def print_def)

text \<open>
  Claim C5 asks for a message that names the secret the user is told to configure. The
  README tells the user to create the secret \<open>GEMINI_API_KEY\<close>; with that name looked up
  and missing, the cell prints two lines that name \<open>GOOGLE_API_KEY\<close> instead, never
  \<open>GEMINI_API_KEY\<close>, and ends with \<open>api_key\<close> undefined.
\<close>

theorem C5_message_names_another_key:
  \<open>credential_cell userdata_empty ''GEMINI_API_KEY'' fresh_world
     = (None,
        \<lparr>stdout =
           [''ERROR: GOOGLE_API_KEY not found.'',
            ''Please go to the "Key" icon on the left sidebar of Colab, add a new secret named GOOGLE_API_KEY, and paste your key in the value field.'' @ [CHR 0x0A]],
         http_gets = [], model_calls = []\<rparr>)
   \<and> \<not> sublist ''GEMINI_API_KEY''
         (concat (stdout (snd (credential_cell userdata_empty ''GEMINI_API_KEY'' fresh_world))))\<close>
proof -
  have a: \<open>credential_cell userdata_empty ''GEMINI_API_KEY'' fresh_world
     = (None,
        \<lparr>stdout =
           [''ERROR: GOOGLE_API_KEY not found.'',
            ''Please go to the "Key" icon on the left sidebar of Colab, add a new secret named GOOGLE_API_KEY, and paste your key in the value field.'' @ [CHR 0x0A]],
         http_gets = [], model_calls = []\<rparr>)\<close>
    using credential_cell_missing [of userdata_empty "''GEMINI_API_KEY''"
        "Exn SecretNotFoundError ''Secret GEMINI_API_KEY does not exist.''" fresh_world]
    by (simp add: userdata_empty_def fresh_world_def)
  have b: \<open>\<not> sublist ''GEMINI_API_KEY''
     (concat [''ERROR: GOOGLE_API_KEY not found.'',
            ''Please go to the "Key" icon on the left sidebar of Colab, add a new secret named GOOGLE_API_KEY, and paste your key in the value field.'' @ [CHR 0x0A]])\<close>
    by code_simp
  from a b show ?thesis by simp
qed

section \<open>Properties of the dispatch cell\<close>

lemma dispatch_cell_function_call:
  assumes "first_part response = Inr p" and "function_call p = Some fc"
  shows "dispatch_cell str_args response w
     = (Inr (), w\<lparr>stdout := stdout w
          @ [''Function to call: '' @ name fc, ''Arguments: '' @ str_args (args fc)]\<rparr>)"
  using assms by (simp add: dispatch_cell_def print_def)

lemma dispatch_cell_no_function_call:
  assumes "first_part response = Inr p" and "function_call p = None"
  shows "dispatch_cell str_args response w
     = (Inr (), w\<lparr>stdout := stdout w
          @ [''No function call found in the response.'',
             str_optional (response_text response)]\<rparr>)"
  using assms by (simp add: dispatch_cell_def print_def)

lemma dispatch_cell_raises:
  assumes "first_part response = Inl e"
  shows "dispatch_cell str_args response w = (Inl e, w)"
  using assms by (simp add: dispatch_cell_def)

text \<open>In no branch does the cell call \<open>requests.get\<close> or the model.\<close>

lemma dispatch_cell_no_calls:
  "http_gets (snd (dispatch_cell str_args response w)) = http_gets w
   \<and> model_calls (snd (dispatch_cell str_args response w)) = model_calls w"
  by (simp add: dispatch_cell_def print_def split: sum.splits option.splits)

lemma thought_part_is_skipped: "response_text thinking_response = Some ''answer''"
  by (simp add: response_text_def text_of_parts_def answer_text_def thinking_response_def)

lemma text_of_parts_nonempty: "text_of_parts ps = Some t \<Longrightarrow> ps \<noteq> []"
  by (auto simp add: text_of_parts_def)

lemma response_text_first_part:
  assumes "response_text response = Some t"
  shows "\<exists>c cs ct p ps. candidates response = Some (c # cs) \<and> content c = Some ct
           \<and> parts ct = Some (p # ps) \<and> first_part response = Inr p"
proof -
  from assms obtain c cs where c: "candidates response = Some (c # cs)"
    by (auto simp add: response_text_def split: option.splits list.splits)
  with assms obtain ct where ct: "content c = Some ct"
    by (auto simp add: response_text_def split: option.splits)
  with assms c obtain qs where qs: "parts ct = Some qs" "text_of_parts qs = Some t"
    by (auto simp add: response_text_def split: option.splits)
  then obtain p ps where "qs = p # ps"
    using text_of_parts_nonempty by (cases qs) auto
  with c ct qs show ?thesis
    by (simp add: first_part_def subscript0_def getattr_parts_def)
qed

lemma no_requests_first_part:
  assumes "function_call_requests response = []" and "first_part response = Inr p"
  shows "function_call p = None"
proof -
  from assms(2) obtain c cs where c: "candidates response = Some (c # cs)"
    by (auto simp add: first_part_def subscript0_def split: option.splits list.splits)
  with assms(2) obtain ct where ct: "content c = Some ct"
    by (auto simp add: first_part_def subscript0_def getattr_parts_def split: option.splits)
  with assms(2) c obtain ps where ps: "parts ct = Some (p # ps)"
    by (auto simp add: first_part_def subscript0_def getattr_parts_def
        split: option.splits list.splits)
  with assms(1) c ct show ?thesis
    by (cases "function_call p") (simp_all add: function_call_requests_def parts_of_candidate_def)
qed


text \<open>
  A response without candidates has no first part: the cell's first expression raises
  and nothing is printed.
\<close>

lemma dispatch_cell_blocked_prompt:
  "raises_class TypeError (fst (dispatch_cell str_args blocked_response w))
   \<and> snd (dispatch_cell str_args blocked_response w) = w"
  by (simp add: dispatch_cell_def first_part_def subscript0_def blocked_response_def
      raises_class_def)

text \<open>
  Claim C3 fails on the notebook: for a response that requests \<open>get_github_user_info\<close>
  for \<open>google\<close>, the cells print the request and stop. No HTTP GET is made, so the tool
  did not run, and the only model call is the first one.
\<close>

theorem C3_counterexample_tool_not_invoked:
  \<open>function_call_requests tool_request_response
     = [\<lparr>name = ''get_github_user_info'', args = [(''username'', PStr ''google'')]\<rparr>]
   \<and> agent_cells llm_tool_request str_args_google ''google'' fresh_world
     = (Inr (),
        \<lparr>stdout = [''Function to call: get_github_user_info'',
                   ''Arguments: {'username': 'google'}''],
         http_gets = [],
         model_calls = [(''gemini-2.5-flash'', user_prompt ''google'')]\<rparr>)\<close>
  by (simp add: function_call_requests_def parts_of_candidate_def tool_request_response_def
      agent_cells_def generate_content_def llm_tool_request_def dispatch_cell_def first_part_def
      subscript0_def getattr_parts_def print_def str_args_google_def fresh_world_def)

text \<open>
  Claim C3, amended. For every model response whose first part carries a function-call
  request naming \<open>get_github_user_info\<close>, the dispatch cell prints the requested name and
  the argument mapping supplied, and does nothing else: it makes no HTTP GET (the tool is
  not invoked) and no model call.
\<close>

theorem C3_known_tool_request_is_printed_only:
  assumes "first_part response = Inr p" and "function_call p = Some fc"
    and "name fc = ''get_github_user_info''"
  shows "dispatch_cell str_args response w
       = (Inr (), w\<lparr>stdout := stdout w
            @ [''Function to call: get_github_user_info'',
               ''Arguments: '' @ str_args (args fc)]\<rparr>)
     \<and> http_gets (snd (dispatch_cell str_args response w)) = http_gets w
     \<and> model_calls (snd (dispatch_cell str_args response w)) = model_calls w"
  using assms dispatch_cell_function_call [of response p fc str_args w] by simp

text \<open>
  Witness for claim C3: the request for \<open>google\<close>.
\<close>

theorem C3_known_tool_request_is_printed_only_witness:
  \<open>dispatch_cell str_args_google tool_request_response fresh_world
     = (Inr (),
        \<lparr>stdout = [''Function to call: get_github_user_info'',
                   ''Arguments: {'username': 'google'}''],
         http_gets = [], model_calls = []\<rparr>)\<close>
  using C3_known_tool_request_is_printed_only [of tool_request_response
      "\<lparr>function_call = Some \<lparr>name = ''get_github_user_info'',
                                args = [(''username'', PStr ''google'')]\<rparr>,
        part_text = None, thought = None\<rparr>"
      "\<lparr>name = ''get_github_user_info'', args = [(''username'', PStr ''google'')]\<rparr>"
      str_args_google fresh_world]
  by (simp add: tool_request_response_def first_part_def subscript0_def getattr_parts_def
      str_args_google_def fresh_world_def)

text \<open>
  Claim C4 fails on the notebook: for a request naming \<open>delete_repository\<close>, which the
  notebook does not define, the cell ends normally after the same two echo lines it
  prints for any request; nothing is reported as an error.
\<close>

theorem C4_counterexample_unknown_tool_no_error:
  \<open>function_call_requests unknown_tool_response
     = [\<lparr>name = ''delete_repository'', args = [(''username'', PStr ''google'')]\<rparr>]
   \<and> dispatch_cell str_args_google unknown_tool_response fresh_world
     = (Inr (),
        \<lparr>stdout = [''Function to call: delete_repository'',
                   ''Arguments: {'username': 'google'}''],
         http_gets = [], model_calls = []\<rparr>)\<close>
  by (simp add: function_call_requests_def parts_of_candidate_def unknown_tool_response_def
      dispatch_cell_def first_part_def subscript0_def getattr_parts_def print_def
      str_args_google_def fresh_world_def)

text \<open>
  Claim C4, amended. For every model response whose first part carries a function-call
  request naming a tool other than \<open>get_github_user_info\<close>, the dispatch cell is not
  silent, since it prints the requested name and arguments, but it checks no name and
  reports no error: it ends normally, with no HTTP GET and no model call.
\<close>

theorem C4_unknown_tool_request_is_printed_only:
  assumes "first_part response = Inr p" and "function_call p = Some fc"
    and "name fc \<noteq> ''get_github_user_info''"
  shows "fst (dispatch_cell str_args response w) = Inr ()
     \<and> stdout (snd (dispatch_cell str_args response w))
         = stdout w @ [''Function to call: '' @ name fc, ''Arguments: '' @ str_args (args fc)]
     \<and> http_gets (snd (dispatch_cell str_args response w)) = http_gets w
     \<and> model_calls (snd (dispatch_cell str_args response w)) = model_calls w"
  using assms dispatch_cell_function_call [of response p fc str_args w] by simp

text \<open>
  Witness for claim C4: the request for \<open>delete_repository\<close>.
\<close>

theorem C4_unknown_tool_request_is_printed_only_witness:
  \<open>fst (dispatch_cell str_args_google unknown_tool_response fresh_world) = Inr ()
   \<and> stdout (snd (dispatch_cell str_args_google unknown_tool_response fresh_world))
       = [''Function to call: delete_repository'', ''Arguments: {'username': 'google'}'']
   \<and> http_gets (snd (dispatch_cell str_args_google unknown_tool_response fresh_world)) = []
   \<and> model_calls (snd (dispatch_cell str_args_google unknown_tool_response fresh_world)) = []\<close>
  using C4_unknown_tool_request_is_printed_only [of unknown_tool_response
      "\<lparr>function_call = Some \<lparr>name = ''delete_repository'',
                                args = [(''username'', PStr ''google'')]\<rparr>,
        part_text = None, thought = None\<rparr>"
      "\<lparr>name = ''delete_repository'', args = [(''username'', PStr ''google'')]\<rparr>"
      str_args_google fresh_world]
  by (simp add: unknown_tool_response_def first_part_def subscript0_def getattr_parts_def
      str_args_google_def fresh_world_def)

text \<open>
  Claim C7, as stated for every response without a function-call request, fails where
  the response has no text. A response without candidates makes the cell's first
  expression raise \<open>TypeError\<close>, and nothing is printed; a response whose only part has
  neither a request nor a text makes the cell print the word \<open>None\<close>.
\<close>

theorem C7_counterexample_no_text_response:
  \<open>function_call_requests blocked_response = []
   \<and> response_text blocked_response = None
   \<and> dispatch_cell str_args_google blocked_response fresh_world
     = (Inl (Exn TypeError (CHR 0x27 # ''NoneType' object is not subscriptable'')), fresh_world)
   \<and> stdout (snd (dispatch_cell str_args_google blocked_response fresh_world)) = []
   \<and> function_call_requests empty_part_response = []
   \<and> response_text empty_part_response = None
   \<and> dispatch_cell str_args_google empty_part_response fresh_world
     = (Inr (),
        \<lparr>stdout = [''No function call found in the response.'', ''None''],
         http_gets = [], model_calls = []\<rparr>)\<close>
  by (simp add: function_call_requests_def parts_of_candidate_def response_text_def
      text_of_parts_def answer_text_def blocked_response_def empty_part_response_def
      dispatch_cell_def first_part_def subscript0_def getattr_parts_def print_def
      str_optional_def fresh_world_def)

text \<open>
  Claim C7, amended. The dispatch cell never invokes a tool: it makes no HTTP GET and no
  model call, whatever the response. For every model response that contains no
  function-call request and has a text, it prints, after its notice line, the model's
  text unchanged.
\<close>

theorem C7_text_response_printed_unchanged:
  "http_gets (snd (dispatch_cell str_args response w)) = http_gets w
   \<and> model_calls (snd (dispatch_cell str_args response w)) = model_calls w
   \<and> (function_call_requests response = [] \<and> response_text response = Some t
      \<longrightarrow> dispatch_cell str_args response w
            = (Inr (),
               w\<lparr>stdout := stdout w @ [''No function call found in the response.'', t]\<rparr>))"
proof -
  have "dispatch_cell str_args response w
      = (Inr (), w\<lparr>stdout := stdout w @ [''No function call found in the response.'', t]\<rparr>)"
    if a: "function_call_requests response = []" and b: "response_text response = Some t"
  proof -
    from response_text_first_part [OF b]
    obtain p where p: "first_part response = Inr p" by blast
    with a have "function_call p = None" by (rule no_requests_first_part)
    with p b dispatch_cell_no_function_call [of response p str_args w]
    show ?thesis by (simp add: str_optional_def)
  qed
  with dispatch_cell_no_calls [of str_args response w] show ?thesis by blast
qed

text \<open>
  Witness for claim C7: a response with one text part.
\<close>

theorem C7_text_response_printed_unchanged_witness:
  "dispatch_cell str_args_google text_response fresh_world
     = (Inr (),
        \<lparr>stdout = [''No function call found in the response.'', ''I cannot look that up.''],
         http_gets = [], model_calls = []\<rparr>)"
  using C7_text_response_printed_unchanged [where response = text_response
      and t = "''I cannot look that up.''" and str_args = str_args_google and w = fresh_world]
  by (simp add: text_response_def function_call_requests_def parts_of_candidate_def
      response_text_def text_of_parts_def answer_text_def fresh_world_def)

end
